theory Spec2Isabelle
  imports Complex_Main "HOL-Library.Word" "HOL-Library.AList"
begin

unbundle bit_operations_syntax

section \<open>JavaScript numbers and strings as used by \<open>scripts/helpers.mjs\<close>\<close>

text \<open>
  A string of JavaScript is a sequence of 16-bit code units, and \<open>charCodeAt\<close> reads one
  of them as a number. The argument of \<open>hash\<close> is such a sequence. (The names, paths and
  JSON texts further down are strings of characters, whose code units are below 256;
  \<open>code_units\<close> turns them into sequences of code units.)
\<close>

type_synonym code_unit = "16 word"

definition code_units :: "string \<Rightarrow> code_unit list" where
  "code_units s = map of_char s"

text \<open>
  The numbers of \<open>hash\<close> are integers in double precision. A double has 53 significant
  bits: every integer up to \<open>2 ^ 53\<close> in magnitude is one, and a larger integer is one
  only if its bits below the leading 53 are zero. \<open>round_double\<close> is the rounding of the
  arithmetic, to the nearest double, and to the one with an even last bit when two are
  equally near; the result is \<open>None\<close> when it is not finite (the magnitude reaches
  \<open>2 ^ 1024\<close>). \<open>bitlen\<close> is the number of bits of a natural number.
\<close>

fun bitlen :: "nat \<Rightarrow> nat" where
  "bitlen n = (if n = 0 then 0 else Suc (bitlen (n div 2)))"

declare bitlen.simps [simp del]

definition round_double :: "int \<Rightarrow> int option" where
  "round_double x =
     (let m = nat \<bar>x\<bar> in
      if m \<le> 2 ^ 53 then Some x
      else
        let e = bitlen m - 53;
            q = m div 2 ^ e;
            r = m mod 2 ^ e;
            q' = (if 2 ^ e < 2 * r \<or> (2 * r = 2 ^ e \<and> odd q) then q + 1 else q)
        in if 2 ^ 1024 \<le> q' * 2 ^ e then None else Some (sgn x * int (q' * 2 ^ e)))"

text \<open>\<open>a * b\<close> on two integers that are doubles: the exact product, rounded.\<close>

definition js_times :: "int \<Rightarrow> int \<Rightarrow> int option" where
  "js_times a b = round_double (a * b)"

text \<open>
  The bitwise operators convert their operands to 32-bit integers: \<open>ToInt32\<close> and
  \<open>ToUint32\<close> reduce an integer modulo \<open>2 ^ 32\<close> to the signed and to the unsigned range,
  and a number that is not finite (\<open>NaN\<close>, an infinity: here \<open>None\<close>) converts to 0.
\<close>

definition ToInt32 :: "int \<Rightarrow> int" where
  "ToInt32 x = sint (word_of_int x :: 32 word)"

definition ToUint32 :: "int \<Rightarrow> nat" where
  "ToUint32 x = unat (word_of_int x :: 32 word)"

text \<open>\<open>string.charCodeAt(i)\<close>: the code unit at index \<open>i\<close>, and \<open>NaN\<close> (here \<open>None\<close>)
  when \<open>i\<close> is out of range.\<close>

definition charCodeAt :: "code_unit list \<Rightarrow> nat \<Rightarrow> int option" where
  "charCodeAt string i = (if i < length string then Some (uint (string ! i)) else None)"

text \<open>\<open>a ^ b\<close>: both operands go through \<open>ToInt32\<close>, the result is the signed 32-bit
  exclusive or.\<close>

definition js_bitxor :: "int option \<Rightarrow> int option \<Rightarrow> int" where
  "js_bitxor a b =
     sint (((case a of None \<Rightarrow> 0 | Some c \<Rightarrow> word_of_int (ToInt32 c)) :: 32 word) XOR
           (case b of None \<Rightarrow> 0 | Some c \<Rightarrow> word_of_int (ToInt32 c)))"

text \<open>\<open>Number.prototype.toString(36)\<close> on a non-negative integer: the digits
  \<open>0-9a-z\<close>, most significant first, no leading zero, and \<open>"0"\<close> for zero.\<close>

definition digit36 :: "nat \<Rightarrow> char" where
  "digit36 d = ''0123456789abcdefghijklmnopqrstuvwxyz'' ! d"

fun toString36 :: "nat \<Rightarrow> string" where
  "toString36 n =
     (if n < 36 then [digit36 n] else toString36 (n div 36) @ [digit36 (n mod 36)])"

declare toString36.simps [simp del]

text \<open>\<open>s.substr(0, n)\<close>: the first \<open>n\<close> code units, fewer when the string is shorter.\<close>

definition substr0 :: "string \<Rightarrow> nat \<Rightarrow> string" where
  "substr0 s n = take n s"

section \<open>The djb2 hash\<close>

text \<open>
  \<^verbatim>\<open>
  export const hash = (string, seed = 5381) => {
    let i = string.length;
    while (i) {
      seed = (seed * 33) ^ string.charCodeAt(--i);
    }
    return (seed >>> 0).toString(36).substr(0, 6);
  };
  \<close>
  The loop counts \<open>i\<close> down from the length to zero; \<open>hash_loop string i seed\<close> is the
  value of \<open>seed\<close> when the loop, entered with that \<open>i\<close> and \<open>seed\<close>, is left. The seed is
  an integer that is a double; from the second round on it is a 32-bit value. The
  optional argument is \<open>None\<close> when the caller omits the seed. The result consists of
  digits and lower-case letters and is given as a string of characters.
\<close>

fun hash_loop :: "code_unit list \<Rightarrow> nat \<Rightarrow> int \<Rightarrow> int" where
  "hash_loop string 0 seed = seed"
| "hash_loop string (Suc i) seed =
     hash_loop string i (js_bitxor (js_times seed 33) (charCodeAt string i))"

definition hash :: "code_unit list \<Rightarrow> int option \<Rightarrow> string" where
  "hash string seed_arg =
     (let seed = (case seed_arg of None \<Rightarrow> 5381 | Some k \<Rightarrow> k);
          seed = hash_loop string (length string) seed
      in substr0 (toString36 (ToUint32 seed)) 6)"

text \<open>
  The reference definition in the words of the specification: fold over the characters
  from the last to the first with \<open>value = (value * 33) XOR charCode\<close> on unbounded
  integers, starting from the seed; reduce the result to an unsigned 32-bit integer;
  render it in base 36; keep the first 6 characters.
\<close>

definition hash_reference :: "code_unit list \<Rightarrow> int \<Rightarrow> string" where
  "hash_reference s k =
     take 6 (toString36 (nat (fold (\<lambda>c v. (v * 33) XOR uint c) (rev s) k mod 2 ^ 32)))"

section \<open>Fingerprints of children and duplicate detection\<close>

text \<open>
  A child is an object with a \<open>name\<close> and an \<open>attributes\<close> object whose values are
  strings. The attributes are kept as the list of the object's own properties in the
  order in which \<open>JSON.stringify\<close> enumerates them.
\<close>

record child =
  name :: string
  attributes :: "(string \<times> string) list"

text \<open>
  \<open>JSON.stringify\<close> without indentation, on the values that \<open>generateHashedKey\<close>
  passes to it. A string is quoted; the double quote, the backslash and the control
  characters are escaped.
\<close>

definition hex_digit :: "nat \<Rightarrow> char" where
  "hex_digit d = ''0123456789abcdef'' ! d"

definition UnicodeEscape :: "nat \<Rightarrow> string" where
  "UnicodeEscape n =
     [CHR 0x5C, CHR ''u'', hex_digit (n div 4096 mod 16), hex_digit (n div 256 mod 16),
      hex_digit (n div 16 mod 16), hex_digit (n mod 16)]"

definition QuoteJSONChar :: "char \<Rightarrow> string" where
  "QuoteJSONChar c =
     (if c = CHR 0x08 then [CHR 0x5C, CHR ''b'']
      else if c = CHR 0x09 then [CHR 0x5C, CHR ''t'']
      else if c = CHR 0x0A then [CHR 0x5C, CHR ''n'']
      else if c = CHR 0x0C then [CHR 0x5C, CHR ''f'']
      else if c = CHR 0x0D then [CHR 0x5C, CHR ''r'']
      else if c = CHR 0x22 then [CHR 0x5C, CHR 0x22]
      else if c = CHR 0x5C then [CHR 0x5C, CHR 0x5C]
      else if (of_char c :: nat) < 0x20 then UnicodeEscape (of_char c)
      else [c])"

definition QuoteJSONString :: "string \<Rightarrow> string" where
  "QuoteJSONString s = [CHR 0x22] @ concat (map QuoteJSONChar s) @ [CHR 0x22]"

fun join :: "string \<Rightarrow> string list \<Rightarrow> string" where
  "join sep [] = []"
| "join sep [x] = x"
| "join sep (x # y # ys) = x @ sep @ join sep (y # ys)"

definition SerializeJSONObject :: "(string \<times> string) list \<Rightarrow> string" where
  "SerializeJSONObject props =
     ''{'' @ join '','' (map (\<lambda>(k, v). QuoteJSONString k @ '':'' @ QuoteJSONString v) props) @ ''}''"

text \<open>\<open>JSON.stringify([name, attributes])\<close>\<close>

definition JSON_stringify_pair :: "string \<Rightarrow> (string \<times> string) list \<Rightarrow> string" where
  "JSON_stringify_pair n attrs =
     ''['' @ join '','' [QuoteJSONString n, SerializeJSONObject attrs] @ '']''"

text \<open>
  \<^verbatim>\<open>
  export const generateHashedKey = ({ name, attributes }) =>
    hash(JSON.stringify([name, attributes]));
  \<close>
\<close>

definition generateHashedKey :: "child \<Rightarrow> string" where
  "generateHashedKey c = hash (code_units (JSON_stringify_pair (name c) (attributes c))) None"

text \<open>
  \<open>Array.prototype.findIndex\<close>: the index of the first element that satisfies the
  predicate, and \<open>-1\<close> when there is none. \<open>Array.prototype.every\<close> passes each
  element with its index to the predicate.
\<close>

fun findIndex :: "('a \<Rightarrow> bool) \<Rightarrow> 'a list \<Rightarrow> int" where
  "findIndex P [] = -1"
| "findIndex P (x # xs) =
     (if P x then 0 else (let r = findIndex P xs in if r < 0 then -1 else r + 1))"

fun every_from :: "('a \<Rightarrow> nat \<Rightarrow> bool) \<Rightarrow> 'a list \<Rightarrow> nat \<Rightarrow> bool" where
  "every_from f [] i = True"
| "every_from f (x # xs) i = (f x i \<and> every_from f xs (Suc i))"

definition every :: "('a \<Rightarrow> nat \<Rightarrow> bool) \<Rightarrow> 'a list \<Rightarrow> bool" where
  "every f xs = every_from f xs 0"

text \<open>
  \<^verbatim>\<open>
  export const hasDuplicatedChildren = (children) => {
    const hashedKeys = children.map(generateHashedKey);
    return !hashedKeys.every(
      (key, index) => index === hashedKeys.findIndex((childKey) => childKey === key),
    );
  };
  \<close>
\<close>

definition hasDuplicatedChildren :: "child list \<Rightarrow> bool" where
  "hasDuplicatedChildren children =
     (let hashedKeys = map generateHashedKey children
      in \<not> every (\<lambda>key index. int index = findIndex (\<lambda>childKey. childKey = key) hashedKeys)
               hashedKeys)"

section \<open>Errors, the working tree and the version-control collaborator\<close>

datatype js_error =
    Error string
  | TypeError string
  | ReferenceError string
  | SyntaxError string
  | GitError string

text \<open>
  The state that the helpers act on: the files of the working tree (path to text), the
  index of the git repository (path to staged text) and the lines written to the console.
\<close>

record world =
  files :: "string \<rightharpoonup> string"
  git_index :: "string \<rightharpoonup> string"
  console :: "string list"

text \<open>\<open>fs.readFileSync(path, 'utf8')\<close> and \<open>fs.writeFileSync(path, data)\<close>\<close>

definition readFileSync :: "string \<Rightarrow> world \<Rightarrow> js_error + string" where
  "readFileSync p w =
     (case files w p of
        None \<Rightarrow> Inl (Error (''ENOENT: no such file or directory, open '' @ p))
      | Some text \<Rightarrow> Inr text)"

definition writeFileSync :: "string \<Rightarrow> string \<Rightarrow> world \<Rightarrow> world" where
  "writeFileSync p data w = w\<lparr>files := (files w)(p \<mapsto> data)\<rparr>"

definition console_log :: "string \<Rightarrow> world \<Rightarrow> world" where
  "console_log line w = w\<lparr>console := console w @ [line]\<rparr>"

text \<open>
  The version-control collaborator is the library \<open>simple-git\<close>. Its two operations
  follow the interface that the specification gives them: \<open>mv\<close> renames a tracked file
  in the working tree and in the index and fails, changing nothing, when the source is
  missing or untracked or the destination exists; \<open>add\<close> stages the current content of
  a file and fails when there is no such file.
\<close>

definition git_mv :: "string \<Rightarrow> string \<Rightarrow> world \<Rightarrow> js_error + world" where
  "git_mv src dst w =
     (case files w src of
        None \<Rightarrow> Inl (GitError (''fatal: bad source, source='' @ src))
      | Some text \<Rightarrow>
          (case git_index w src of
             None \<Rightarrow> Inl (GitError (''fatal: not under version control, source='' @ src))
           | Some staged \<Rightarrow>
               if files w dst \<noteq> None
               then Inl (GitError (''fatal: destination exists, source='' @ src))
               else Inr (w\<lparr>files := (files w)(src := None, dst \<mapsto> text),
                          git_index := (git_index w)(src := None, dst \<mapsto> staged)\<rparr>)))"

definition git_add :: "string \<Rightarrow> world \<Rightarrow> js_error + world" where
  "git_add p w =
     (case files w p of
        None \<Rightarrow> Inl (GitError (''fatal: pathspec did not match any files: '' @ p))
      | Some text \<Rightarrow> Inr (w\<lparr>git_index := (git_index w)(p \<mapsto> text)\<rparr>))"

section \<open>The exported \<open>readFile\<close>\<close>

text \<open>
  \<^verbatim>\<open>
  import fs from 'fs';
  import path from 'path';
  ...
  export const readFile = (path) =>
    fs.readFileSync(path.resolve(__dirname, '../', path), 'utf-8');
  \<close>
  What the call does depends on how its identifiers resolve, so the evaluation of the
  body is written out: the values that identifiers and properties can have here, the
  scopes, the property read and the call.
\<close>

datatype js_value =
    Undefined
  | Str string
  | NodeModule string
  | Function string

text \<open>The bindings of the module: its imports and its exports.\<close>

definition module_scope :: "(string \<times> js_value) list" where
  "module_scope =
     [(''fs'', NodeModule ''fs''), (''path'', NodeModule ''path''),
      (''fileURLToPath'', Function ''url.fileURLToPath''),
      (''simpleGit'', Function ''simple-git''), (''promisify'', Function ''util.promisify''),
      (''toCamelCase'', Function ''toCamelCase''), (''toPascalCase'', Function ''toPascalCase''),
      (''toKebabCase'', Function ''toKebabCase''), (''resetFile'', Function ''resetFile''),
      (''readFile'', Function ''readFile''), (''appendFile'', Function ''appendFile''),
      (''writeFile'', Function ''writeFile''),
      (''writeFileIfNotExists'', Function ''writeFileIfNotExists''),
      (''readAllMetadata'', Function ''readAllMetadata''),
      (''readMetadata'', Function ''readMetadata''),
      (''readSvgDirectory'', Function ''readSvgDirectory''), (''readSvg'', Function ''readSvg''),
      (''writeSvgFile'', Function ''writeSvgFile''), (''hash'', Function ''hash''),
      (''generateHashedKey'', Function ''generateHashedKey''),
      (''hasDuplicatedChildren'', Function ''hasDuplicatedChildren''),
      (''mergeArrays'', Function ''mergeArrays''),
      (''getCurrentDirPath'', Function ''getCurrentDirPath''), (''shuffle'', Function ''shuffle''),
      (''minifySvg'', Function ''minifySvg''), (''renameIcon'', Function ''renameIcon'')]"

text \<open>
  An identifier is looked up in the scope of the function (its parameters), then in the
  scope of the module, then among the properties of the global object, which the caller
  of the model supplies; an identifier bound nowhere is a \<open>ReferenceError\<close>.
\<close>

definition ResolveBinding ::
  "(string \<times> js_value) list \<Rightarrow> (string \<times> js_value) list \<Rightarrow> string \<Rightarrow> js_error + js_value" where
  "ResolveBinding locals globals x =
     (case map_of locals x of
        Some v \<Rightarrow> Inr v
      | None \<Rightarrow>
          (case map_of module_scope x of
             Some v \<Rightarrow> Inr v
           | None \<Rightarrow>
               (case map_of globals x of
                  Some v \<Rightarrow> Inr v
                | None \<Rightarrow> Inl (ReferenceError (x @ '' is not defined'')))))"

text \<open>
  The property read \<open>value.p\<close> for the name of a method. The modules \<open>fs\<close> and \<open>path\<close>
  have the functions that this file uses; a string has the methods of
  \<open>String.prototype\<close>; reading a property of \<open>undefined\<close> throws.
\<close>

definition node_exports :: "(string \<times> string) list" where
  "node_exports =
     [(''fs'', ''writeFileSync''), (''fs'', ''readFileSync''), (''fs'', ''appendFileSync''),
      (''fs'', ''existsSync''), (''fs'', ''readdirSync''), (''fs'', ''access''),
      (''path'', ''join''), (''path'', ''resolve''), (''path'', ''extname''),
      (''path'', ''basename''), (''path'', ''dirname'')]"

definition String_prototype :: "string list" where
  "String_prototype =
     [''at'', ''charAt'', ''charCodeAt'', ''codePointAt'', ''concat'', ''endsWith'', ''includes'',
      ''indexOf'', ''isWellFormed'', ''lastIndexOf'', ''localeCompare'', ''match'', ''matchAll'',
      ''normalize'', ''padEnd'', ''padStart'', ''repeat'', ''replace'', ''replaceAll'', ''search'',
      ''slice'', ''split'', ''startsWith'', ''substr'', ''substring'', ''toLocaleLowerCase'',
      ''toLocaleUpperCase'', ''toLowerCase'', ''toString'', ''toUpperCase'', ''toWellFormed'',
      ''trim'', ''trimEnd'', ''trimLeft'', ''trimRight'', ''trimStart'', ''valueOf'', ''anchor'',
      ''big'', ''blink'', ''bold'', ''fixed'', ''fontcolor'', ''fontsize'', ''italics'', ''link'',
      ''small'', ''strike'', ''sub'', ''sup'', ''constructor'', ''hasOwnProperty'',
      ''isPrototypeOf'', ''propertyIsEnumerable'', ''toLocaleString'']"

fun get_method :: "js_value \<Rightarrow> string \<Rightarrow> js_error + js_value" where
  "get_method Undefined p =
     Inl (TypeError (''Cannot read properties of undefined (reading '' @ p @ '')''))"
| "get_method (NodeModule m) p =
     Inr (if (m, p) \<in> set node_exports then Function (m @ ''.'' @ p) else Undefined)"
| "get_method (Str s) p =
     Inr (if p \<in> set String_prototype then Function (''String.prototype.'' @ p) else Undefined)"
| "get_method (Function f) p = Inr Undefined"

text \<open>
  The call \<open>callee(args)\<close>, after the arguments have been evaluated. Calling a value that
  is not a function throws a \<open>TypeError\<close>. \<open>path.resolve\<close> is a parameter of the model;
  it accepts strings only. \<open>fs.readFileSync\<close> reads the working tree. The result is
  \<open>None\<close> for the functions that are not modelled.
\<close>

fun the_strings :: "js_value list \<Rightarrow> string list option" where
  "the_strings [] = Some []"
| "the_strings (Str s # vs) = (case the_strings vs of None \<Rightarrow> None | Some ss \<Rightarrow> Some (s # ss))"
| "the_strings (v # vs) = None"

fun call_function ::
  "(string list \<Rightarrow> string) \<Rightarrow> world \<Rightarrow> js_value \<Rightarrow> js_value list \<Rightarrow> (js_error + js_value) option" where
  "call_function path_resolve w (Function f) args =
     (if f = ''path.resolve'' then
        (case the_strings args of
           None \<Rightarrow> Some (Inl (TypeError ''The paths argument must be of type string''))
         | Some ss \<Rightarrow> Some (Inr (Str (path_resolve ss))))
      else if f = ''fs.readFileSync'' then
        (case args of
           Str p # options \<Rightarrow>
             (case readFileSync p w of
                Inl e \<Rightarrow> Some (Inl e)
              | Inr body \<Rightarrow> Some (Inr (Str body)))
         | _ \<Rightarrow> Some (Inl (TypeError ''The path argument must be of type string'')))
      else None)"
| "call_function path_resolve w v args = Some (Inl (TypeError ''callee is not a function''))"

text \<open>
  The body of \<open>readFile\<close>, in the order of evaluation of the language: the callee
  \<open>fs.readFileSync\<close>; for its first argument the callee \<open>path.resolve\<close>, then the
  arguments \<open>__dirname\<close>, \<open>'../'\<close> and \<open>path\<close>, then the call; then the outer call. Inside
  the function the name \<open>path\<close> is the parameter.
\<close>

definition readFile ::
  "(string \<times> js_value) list \<Rightarrow> (string list \<Rightarrow> string) \<Rightarrow> world \<Rightarrow> string \<Rightarrow>
   (js_error + js_value) option" where
  "readFile globals path_resolve w path_arg =
     (let locals = [(''path'', Str path_arg)] in
      case ResolveBinding locals globals ''fs'' of Inl e \<Rightarrow> Some (Inl e) | Inr fs_value \<Rightarrow>
      case get_method fs_value ''readFileSync'' of Inl e \<Rightarrow> Some (Inl e) | Inr outer \<Rightarrow>
      case ResolveBinding locals globals ''path'' of Inl e \<Rightarrow> Some (Inl e) | Inr path_value \<Rightarrow>
      case get_method path_value ''resolve'' of Inl e \<Rightarrow> Some (Inl e) | Inr inner \<Rightarrow>
      case ResolveBinding locals globals ''__dirname'' of Inl e \<Rightarrow> Some (Inl e) | Inr dirname \<Rightarrow>
      case ResolveBinding locals globals ''path'' of Inl e \<Rightarrow> Some (Inl e) | Inr last_arg \<Rightarrow>
      case call_function path_resolve w inner [dirname, Str ''../'', last_arg] of
        None \<Rightarrow> None
      | Some (Inl e) \<Rightarrow> Some (Inl e)
      | Some (Inr resolved) \<Rightarrow> call_function path_resolve w outer [resolved, Str ''utf-8''])"

section \<open>JSON values\<close>

text \<open>
  The values that \<open>JSON.parse\<close> returns. An object is the list of its properties in
  enumeration order. \<open>JSON.parse\<close> and \<open>JSON.stringify(value, null, 2)\<close> themselves are
  built into the language; the workflow takes them as the parameters \<open>JSON_parse\<close>
  (\<open>None\<close> when the text is not JSON and a \<open>SyntaxError\<close> is thrown) and
  \<open>JSON_stringify\<close>.
\<close>

datatype json =
    JNull
  | JBool bool
  | JNumber real
  | JString string
  | JArray "json list"
  | JObject "(string \<times> json) list"

text \<open>\<open>Array.isArray(value)\<close> on the value of a property (\<open>None\<close> is \<open>undefined\<close>), and
  the elements of such an array.\<close>

fun Array_isArray :: "json option \<Rightarrow> bool" where
  "Array_isArray (Some (JArray xs)) = True"
| "Array_isArray v = False"

fun elements :: "json option \<Rightarrow> json list" where
  "elements (Some (JArray xs)) = xs"
| "elements v = []"

text \<open>\<open>array.push(v)\<close> appends \<open>v\<close> to the array and returns the new length: the pair
  is the array after the call and the value of the call.\<close>

definition Array_push :: "json list \<Rightarrow> json \<Rightarrow> json list \<times> json" where
  "Array_push xs v = (xs @ [v], JNumber (real (length (xs @ [v]))))"

text \<open>\<open>value.length\<close>: the number of elements of an array, the number of code units of a
  string, the property of that name of an object, \<open>undefined\<close> (here \<open>None\<close>) on a
  number or a boolean, and a \<open>TypeError\<close> on \<open>null\<close>.\<close>

fun length_property :: "json \<Rightarrow> js_error + json option" where
  "length_property (JArray xs) = Inr (Some (JNumber (real (length xs))))"
| "length_property (JString s) = Inr (Some (JNumber (real (length s))))"
| "length_property (JObject props) = Inr (map_of props ''length'')"
| "length_property (JNumber n) = Inr None"
| "length_property (JBool b) = Inr None"
| "length_property JNull = Inl (TypeError ''Cannot read properties of null (reading length)'')"

section \<open>The rename workflow\<close>

text \<open>
  \<^verbatim>\<open>
  if (Array.isArray(jsonData.aliases)) {
    jsonData.aliases = jsonData.aliases.filter(name => name !== newName).push(oldName);
    if (jsonData.aliases.length === 0) {
      delete jsonData.aliases;
    }
  } else {
    jsonData.aliases = [oldName];
  }
  \<close>
  The value of \<open>jsonData\<close> after these lines. The module is in strict mode: reading a
  property of \<open>null\<close> throws, and so does creating a property on a number, a string or a
  boolean. A property \<open>aliases\<close> set on an array is not an element of the array, and
  \<open>JSON.stringify\<close> does not write it.
\<close>

definition update_aliases :: "json \<Rightarrow> string \<Rightarrow> string \<Rightarrow> js_error + json" where
  "update_aliases jsonData oldName newName =
     (case jsonData of
        JObject props \<Rightarrow>
          if Array_isArray (map_of props ''aliases'') then
            (let assigned = snd (Array_push
                                  (filter (\<lambda>name. name \<noteq> JString newName)
                                     (elements (map_of props ''aliases'')))
                                  (JString oldName));
                 props = AList.update ''aliases'' assigned props
             in case length_property assigned of
                  Inl e \<Rightarrow> Inl e
                | Inr len \<Rightarrow>
                    if len = Some (JNumber 0)
                    then Inr (JObject (AList.delete ''aliases'' props))
                    else Inr (JObject props))
          else Inr (JObject (AList.update ''aliases'' (JArray [JString oldName]) props))
      | JArray elems \<Rightarrow> Inr (JArray elems)
      | JNull \<Rightarrow> Inl (TypeError ''Cannot read properties of null (reading aliases)'')
      | _ \<Rightarrow> Inl (TypeError ''Cannot create property aliases on a primitive value''))"

text \<open>\<open>fileExists\<close>, the local function of \<open>renameIcon\<close>: whether \<open>fs.access\<close> succeeds.\<close>

definition fileExists :: "string \<Rightarrow> world \<Rightarrow> bool" where
  "fileExists filePath w = (files w filePath \<noteq> None)"

text \<open>
  \<^verbatim>\<open>
  export async function renameIcon(ICONS_DIR, oldName, newName, logInfo = true) {
    const git = simpleGit();
    ...
    if (await fileExists(`${ICONS_DIR}/${newName}.svg`)) {
      throw new Error(`ERROR: Icon icons/${newName}.svg already exists`);
    }
    if (await fileExists(`${ICONS_DIR}/${newName}.json`)) {
      throw new Error(`ERROR: Metadata file icons/${newName}.json already exists`);
    }
    if (!(await fileExists(`${ICONS_DIR}/${oldName}.svg`))) {
      throw new Error(`ERROR: Icon icons/${oldName}.svg doesn't exist`);
    }
    if (!(await fileExists(`${ICONS_DIR}/${oldName}.json`))) {
      throw new Error(`ERROR: Metadata file icons/${oldName}.json doesn't exist`);
    }
    await git.mv(`${ICONS_DIR}/${oldName}.svg`, `${ICONS_DIR}/${newName}.svg`);
    await git.mv(`${ICONS_DIR}/${oldName}.json`, `${ICONS_DIR}/${newName}.json`);
    const json = fs.readFileSync(`${ICONS_DIR}/${newName}.json`, 'utf8');
    const jsonData = JSON.parse(json);
    ...
    fs.writeFileSync(`${ICONS_DIR}/${newName}.json`, JSON.stringify(jsonData, null, 2));
    await git.add(`${ICONS_DIR}/${newName}.json`);
    if (logInfo) {
      console.log('SUCCESS: Next steps:');
      ...
    }
  }
  \<close>
  Every step waits for the one before it, so the function is the sequence of its steps.
  The result is the outcome (the error thrown, or a normal return) together with the
  state in which the call ends, so that the effects of a call that throws stay visible.
  The argument \<open>logInfo\<close> is \<open>None\<close> when the caller omits it.
\<close>

definition renameIcon ::
  "(string \<Rightarrow> json option) \<Rightarrow> (json \<Rightarrow> string) \<Rightarrow>
   string \<Rightarrow> string \<Rightarrow> string \<Rightarrow> bool option \<Rightarrow> world \<Rightarrow> (js_error + unit) \<times> world" where
  "renameIcon JSON_parse JSON_stringify ICONS_DIR oldName newName logInfo w =
     (if fileExists (ICONS_DIR @ ''/'' @ newName @ ''.svg'') w then
        (Inl (Error (''ERROR: Icon icons/'' @ newName @ ''.svg already exists'')), w)
      else if fileExists (ICONS_DIR @ ''/'' @ newName @ ''.json'') w then
        (Inl (Error (''ERROR: Metadata file icons/'' @ newName @ ''.json already exists'')), w)
      else if \<not> fileExists (ICONS_DIR @ ''/'' @ oldName @ ''.svg'') w then
        (Inl (Error (''ERROR: Icon icons/'' @ oldName @ ''.svg doesn'' @ [CHR 0x27] @ ''t exist'')),
         w)
      else if \<not> fileExists (ICONS_DIR @ ''/'' @ oldName @ ''.json'') w then
        (Inl (Error (''ERROR: Metadata file icons/'' @ oldName @ ''.json doesn'' @ [CHR 0x27] @
                     ''t exist'')),
         w)
      else
        case git_mv (ICONS_DIR @ ''/'' @ oldName @ ''.svg'')
                    (ICONS_DIR @ ''/'' @ newName @ ''.svg'') w of
          Inl e \<Rightarrow> (Inl e, w)
        | Inr w1 \<Rightarrow>
        case git_mv (ICONS_DIR @ ''/'' @ oldName @ ''.json'')
                    (ICONS_DIR @ ''/'' @ newName @ ''.json'') w1 of
          Inl e \<Rightarrow> (Inl e, w1)
        | Inr w2 \<Rightarrow>
        case readFileSync (ICONS_DIR @ ''/'' @ newName @ ''.json'') w2 of
          Inl e \<Rightarrow> (Inl e, w2)
        | Inr json \<Rightarrow>
        case JSON_parse json of
          None \<Rightarrow> (Inl (SyntaxError ''Unexpected token in JSON''), w2)
        | Some jsonData \<Rightarrow>
        case update_aliases jsonData oldName newName of
          Inl e \<Rightarrow> (Inl e, w2)
        | Inr jsonData' \<Rightarrow>
        let w3 = writeFileSync (ICONS_DIR @ ''/'' @ newName @ ''.json'')
                   (JSON_stringify jsonData') w2 in
        case git_add (ICONS_DIR @ ''/'' @ newName @ ''.json'') w3 of
          Inl e \<Rightarrow> (Inl e, w3)
        | Inr w4 \<Rightarrow>
        (Inr (),
         if (case logInfo of None \<Rightarrow> True | Some b \<Rightarrow> b) then
           console_log ''git checkout main;''
            (console_log (''gh pr create --title '' @ [CHR 0x27] @ ''Renamed '' @ oldName @
                          '' to '' @ newName @ [CHR 0x27] @ '';'')
            (console_log (''git commit -m '' @ [CHR 0x27] @ ''Renamed '' @ oldName @
                          '' to '' @ newName @ [CHR 0x27] @ '';'')
            (console_log (''git checkout -b rename/'' @ oldName @ ''-to-'' @ newName @ '';'')
            (console_log ''SUCCESS: Next steps:'' w4))))
         else w4))"

section \<open>Example trees\<close>

text \<open>
  Two working trees with one tracked icon each, and \<open>JSON.parse\<close> and
  \<open>JSON.stringify(value, null, 2)\<close> on the texts and values that occur when the icon is
  renamed: the concrete inputs at which the properties of the workflow are evaluated.
\<close>

text \<open>The line feed.\<close>

definition nl :: string where
  "nl = [CHR 0x0A]"

definition JSON_parse_examples :: \<open>string \<Rightarrow> json option\<close> where
  \<open>JSON_parse_examples body =
     (if body = ''{"tags":["building"]}'' then
        Some (JObject [(''tags'', JArray [JString ''building''])])
      else if body = ''{"tags":["building"],"aliases":["home"]}'' then
        Some (JObject [(''tags'', JArray [JString ''building'']),
                       (''aliases'', JArray [JString ''home''])])
      else None)\<close>

definition JSON_stringify_examples :: \<open>json \<Rightarrow> string\<close> where
  \<open>JSON_stringify_examples v =
     (if v = JObject [(''tags'', JArray [JString ''building'']),
                      (''aliases'', JArray [JString ''home''])] then
        ''{'' @ nl @ ''  "tags": ['' @ nl @ ''    "building"'' @ nl @ ''  ],'' @ nl @
        ''  "aliases": ['' @ nl @ ''    "home"'' @ nl @ ''  ]'' @ nl @ ''}''
      else if v = JObject [(''tags'', JArray [JString ''building'']), (''aliases'', JNumber 1)] then
        ''{'' @ nl @ ''  "tags": ['' @ nl @ ''    "building"'' @ nl @ ''  ],'' @ nl @
        ''  "aliases": 1'' @ nl @ ''}''
      else [])\<close>

definition home_tree :: world where
  \<open>home_tree =
     \<lparr>files = [''icons/home.svg'' \<mapsto> ''<svg></svg>'',
               ''icons/home.json'' \<mapsto> ''{"tags":["building"]}''],
      git_index = [''icons/home.svg'' \<mapsto> ''<svg></svg>'',
                   ''icons/home.json'' \<mapsto> ''{"tags":["building"]}''],
      console = []\<rparr>\<close>

definition house_tree :: world where
  \<open>house_tree =
     \<lparr>files = [''icons/house.svg'' \<mapsto> ''<svg></svg>'',
               ''icons/house.json'' \<mapsto> ''{"tags":["building"],"aliases":["home"]}''],
      git_index = [''icons/house.svg'' \<mapsto> ''<svg></svg>'',
                   ''icons/house.json'' \<mapsto> ''{"tags":["building"],"aliases":["home"]}''],
      console = []\<rparr>\<close>

definition home_to_house :: "(js_error + unit) \<times> world" where
  "home_to_house =
     renameIcon JSON_parse_examples JSON_stringify_examples ''icons'' ''home'' ''house''
       (Some False) home_tree"

definition house_to_home :: "(js_error + unit) \<times> world" where
  "house_to_home =
     renameIcon JSON_parse_examples JSON_stringify_examples ''icons'' ''house'' ''home''
       (Some False) house_tree"

section \<open>Properties of the hash\<close>

lemma ToUint32_mod: "ToUint32 x = nat (x mod 2 ^ 32)"
  by (simp add: ToUint32_def unat_eq_nat_uint uint_word_of_int)

lemma word_of_int_ToInt32: "(word_of_int (ToInt32 x) :: 32 word) = word_of_int x"
  by (simp add: ToInt32_def)

lemma word_of_js_bitxor:
  "(word_of_int (js_bitxor (Some a) (Some c)) :: 32 word) = word_of_int a XOR word_of_int c"
  by (simp add: js_bitxor_def word_of_int_ToInt32)

lemma js_bitxor_range: "\<bar>js_bitxor a b * 33\<bar> \<le> 2 ^ 53"
proof -
  have "- (2 ^ 31) \<le> js_bitxor a b" "js_bitxor a b < 2 ^ 31"
    unfolding js_bitxor_def
    using sint_ge [where 'a = 32] sint_lt [where 'a = 32] by simp_all
  then show ?thesis by simp
qed

lemma round_double_exact: "\<bar>x\<bar> \<le> 2 ^ 53 \<Longrightarrow> round_double x = Some x"
  by (simp add: round_double_def nat_le_iff)

lemma js_times_exact: "\<bar>a * b\<bar> \<le> 2 ^ 53 \<Longrightarrow> js_times a b = Some (a * b)"
  by (simp add: js_times_def round_double_exact)

lemma word_of_step:
  "(word_of_int (v * 33 XOR c) :: 32 word) = word_of_int v * 33 XOR word_of_int c"
  by (simp add: of_int_xor_eq)

lemma fold_step_cong:
  "(word_of_int a :: 32 word) = word_of_int b \<Longrightarrow>
   (word_of_int (fold (\<lambda>c v. (v * 33) XOR uint c) xs a) :: 32 word) =
    word_of_int (fold (\<lambda>c v. (v * 33) XOR uint c) xs b)"
proof (induction xs arbitrary: a b)
  case Nil
  then show ?case by simp
next
  case (Cons x xs)
  have "(word_of_int (a * 33 XOR uint x) :: 32 word) =
        word_of_int (b * 33 XOR uint x)"
    using Cons.prems by (simp only: word_of_step)
  then have "(word_of_int (fold (\<lambda>c v. (v * 33) XOR uint c) xs (a * 33 XOR uint x))
                :: 32 word) =
             word_of_int (fold (\<lambda>c v. (v * 33) XOR uint c) xs (b * 33 XOR uint x))"
    by (rule Cons.IH)
  then show ?case
    by (simp only: fold_simps)
qed

lemma ToUint32_cong:
  "(word_of_int a :: 32 word) = word_of_int b \<Longrightarrow> ToUint32 a = ToUint32 b"
  by (simp add: ToUint32_def)

lemma digit36_in: "d < 36 \<Longrightarrow> digit36 d \<in> set ''0123456789abcdefghijklmnopqrstuvwxyz''"
  unfolding digit36_def by (rule nth_mem) simp

lemma toString36_nonempty: "toString36 n \<noteq> []"
  by (subst toString36.simps) simp

lemma hash_loop_fold:
  "i \<le> length s \<Longrightarrow> \<bar>k * 33\<bar> \<le> 2 ^ 53 \<Longrightarrow>
   (word_of_int (hash_loop s i k) :: 32 word) =
    word_of_int (fold (\<lambda>c v. (v * 33) XOR uint c) (rev (take i s)) k)"
proof (induction i arbitrary: k)
  case 0
  then show ?case by simp
next
  case (Suc i)
  let ?f = "(\<lambda>c v. (v * 33) XOR uint c)"
  let ?k' = "js_bitxor (js_times k 33) (charCodeAt s i)"
  from Suc.prems have lt: "i < length s" by simp
  have times: "js_times k 33 = Some (k * 33)"
    using Suc.prems(2) by (rule js_times_exact)
  have step: "(word_of_int ?k' :: 32 word) = word_of_int (?f (s ! i) k)"
    using lt by (simp only: times charCodeAt_def word_of_js_bitxor of_int_xor_eq if_True)
  have "(word_of_int (hash_loop s (Suc i) k) :: 32 word) = word_of_int (hash_loop s i ?k')"
    by (simp only: hash_loop.simps)
  also have "\<dots> = word_of_int (fold ?f (rev (take i s)) ?k')"
    using lt by (intro Suc.IH js_bitxor_range) simp
  also have "\<dots> = word_of_int (fold ?f (rev (take i s)) (?f (s ! i) k))"
    by (rule fold_step_cong [OF step])
  also have "\<dots> = word_of_int (fold ?f (rev (take (Suc i) s)) k)"
    using lt by (simp only: take_Suc_conv_app_nth rev_append rev.simps append.simps fold_simps)
  finally show ?case .
qed

lemma toString36_digits: "set (toString36 n) \<subseteq> set ''0123456789abcdefghijklmnopqrstuvwxyz''"
proof (induction n rule: toString36.induct)
  case (1 n)
  show ?case
  proof (cases "n < 36")
    case True
    have "toString36 n = [digit36 n]"
      using True by (subst toString36.simps) simp
    then show ?thesis
      using digit36_in [OF True] by simp
  next
    case False
    have d: "digit36 (n mod 36) \<in> set ''0123456789abcdefghijklmnopqrstuvwxyz''"
      by (rule digit36_in) simp
    have e: "toString36 n = toString36 (n div 36) @ [digit36 (n mod 36)]"
      using False by (subst toString36.simps) simp
    show ?thesis
      unfolding e using "1.IH" [OF False] d by (simp only: set_append set_simps Un_subset_iff insert_subset empty_subsetI simp_thms)
  qed
qed

lemma hash_loop_ToUint32:
  "\<bar>k * 33\<bar> \<le> 2 ^ 53 \<Longrightarrow>
   ToUint32 (hash_loop s (length s) k) =
     nat (fold (\<lambda>c v. (v * 33) XOR uint c) (rev s) k mod 2 ^ 32)"
proof -
  assume "\<bar>k * 33\<bar> \<le> 2 ^ 53"
  then have "(word_of_int (hash_loop s (length s) k) :: 32 word) =
        word_of_int (fold (\<lambda>c v. (v * 33) XOR uint c) (rev s) k)"
    using hash_loop_fold [of "length s" s k] by simp
  then have "ToUint32 (hash_loop s (length s) k) =
             ToUint32 (fold (\<lambda>c v. (v * 33) XOR uint c) (rev s) k)"
    by (rule ToUint32_cong)
  then show ?thesis
    by (simp only: ToUint32_mod)
qed

lemma hash_default_fold:
  "hash s None =
     take 6 (toString36 (nat (fold (\<lambda>c v. (v * 33) XOR uint c) (rev s) 5381 mod 2 ^ 32)))"
  by (simp add: hash_def substr0_def hash_loop_ToUint32)

lemma bitlen_product: "bitlen 297237575406452703 = 59"
  by (simp add: bitlen.simps)

lemma js_times_rounds: "js_times 9007199254740991 33 = Some 297237575406452672"
  by (simp add: js_times_def round_double_def Let_def bitlen_product)

lemma toString36_rounded: "toString36 4294967201 = ''1z141wh''"
  by (simp add: toString36.simps digit36_def)

lemma toString36_exact: "toString36 4294967230 = ''1z141xa''"
  by (simp add: toString36.simps digit36_def)

text \<open>
  C4. For every string and every integer seed \<open>k\<close> with \<open>|33 * k| \<le> 2 ^ 53\<close>,
  \<open>hash\<close> computes the reference definition: the fold \<open>value = (value * 33) XOR charCode\<close> over
  the characters from the last to the first, started at the seed, reduced to an unsigned
  32-bit integer, rendered in base 36 and cut to its first 6 characters.
\<close>

theorem hash_refines_reference:
  "\<bar>k * 33\<bar> \<le> 2 ^ 53 \<Longrightarrow> hash s (Some k) = hash_reference s k"
  by (simp add: hash_def hash_reference_def substr0_def hash_loop_ToUint32)

theorem hash_refines_reference_witness:
  "\<bar>5381 * 33\<bar> \<le> (2::int) ^ 53 \<and>
   hash [97, 98] (Some 5381) = hash_reference [97, 98] 5381 \<and>
   hash_reference [97, 98] 5381 = ''3hmfa''"
proof -
  have b: "\<bar>5381 * 33\<bar> \<le> (2::int) ^ 53"
    by simp
  have r: "hash_reference [97, 98] 5381 = ''3hmfa''"
    by (simp add: hash_reference_def toString36.simps digit36_def)
  show ?thesis
    by (intro conjI b r hash_refines_reference [OF b])
qed

text \<open>
  Beyond that bound the product \<open>seed * 33\<close> is rounded to a double before it is reduced
  to 32 bits. With the seed \<open>2 ^ 53 - 1\<close> and the string \<open>a\<close> the product
  297237575406452703 is rounded to 297237575406452672; \<open>hash\<close> returns \<open>1z141w\<close>, the
  reference definition gives \<open>1z141x\<close>.
\<close>

theorem hash_differs_from_reference_at_large_seed:
  "hash [97] (Some 9007199254740991) = ''1z141w'' \<and>
   hash_reference [97] 9007199254740991 = ''1z141x''"
  by (simp add: hash_def hash_reference_def substr0_def charCodeAt_def js_times_rounds
      js_bitxor_def ToInt32_def ToUint32_def toString36_rounded toString36_exact)

text \<open>
  C5. For every string and every seed, given or omitted, the output of \<open>hash\<close> is a
  non-empty string of at most 6 characters, all of them among \<open>0-9a-z\<close>.
\<close>

theorem hash_output_shape:
  "hash s seed_arg \<noteq> [] \<and> length (hash s seed_arg) \<le> 6 \<and>
   set (hash s seed_arg) \<subseteq> set ''0123456789abcdefghijklmnopqrstuvwxyz''"
proof -
  obtain n where h: "hash s seed_arg = take 6 (toString36 n)"
    by (simp add: hash_def substr0_def Let_def)
  have "set (take 6 (toString36 n)) \<subseteq> set (toString36 n)"
    by (rule set_take_subset)
  then have "set (take 6 (toString36 n)) \<subseteq> set ''0123456789abcdefghijklmnopqrstuvwxyz''"
    using toString36_digits [of n] by (rule subset_trans)
  moreover have "take 6 (toString36 n) \<noteq> []"
    using toString36_nonempty [of n] by simp
  moreover have "length (take 6 (toString36 n)) \<le> 6"
    by simp
  ultimately show ?thesis
    unfolding h by blast
qed

text \<open>
  C9. \<open>hash\<close> is deterministic: it is a function of the string and the seed alone (it reads
  no other state), so every evaluation on the same string and seed yields the one same
  output; and a call that omits the seed is the call with the seed 5381.
\<close>

theorem hash_deterministic:
  "hash s None = hash s (Some 5381) \<and> (\<exists>!r. hash s seed_arg = r)"
  by (simp add: hash_def)

section \<open>Properties of duplicate detection\<close>

lemma stringify_path_h19: "JSON_stringify_pair ''path'' [(''d'', ''M3 15h19'')] =
  [CHR ''['', CHR 0x22, CHR ''p'', CHR ''a'', CHR ''t'', CHR ''h'', CHR 0x22,
  CHR '','', CHR ''{'', CHR 0x22, CHR ''d'', CHR 0x22, CHR '':'', CHR 0x22,
  CHR ''M'', CHR ''3'', CHR '' '', CHR ''1'', CHR ''5'', CHR ''h'',
  CHR ''1'', CHR ''9'', CHR 0x22, CHR ''}'', CHR '']'']"
  by (simp add: JSON_stringify_pair_def SerializeJSONObject_def QuoteJSONString_def QuoteJSONChar_def)

lemma stringify_path_v10: "JSON_stringify_pair ''path'' [(''d'', ''M22 22v10'')] =
  [CHR ''['', CHR 0x22, CHR ''p'', CHR ''a'', CHR ''t'', CHR ''h'', CHR 0x22,
  CHR '','', CHR ''{'', CHR 0x22, CHR ''d'', CHR 0x22, CHR '':'', CHR 0x22,
  CHR ''M'', CHR ''2'', CHR ''2'', CHR '' '', CHR ''2'', CHR ''2'', CHR ''v'',
  CHR ''1'', CHR ''0'', CHR 0x22, CHR ''}'', CHR '']'']"
  by (simp add: JSON_stringify_pair_def SerializeJSONObject_def QuoteJSONString_def QuoteJSONChar_def)

lemma toString36_wibyyo: "toString36 1965709248 = ''wibyyo''"
  by (simp add: toString36.simps digit36_def)

lemma key_path_h19: "generateHashedKey \<lparr>name = ''path'', attributes = [(''d'', ''M3 15h19'')]\<rparr> = ''wibyyo''"
  by (simp add: generateHashedKey_def stringify_path_h19 code_units_def hash_default_fold
      toString36_wibyyo)

lemma key_path_v10: "generateHashedKey \<lparr>name = ''path'', attributes = [(''d'', ''M22 22v10'')]\<rparr> = ''wibyyo''"
  by (simp add: generateHashedKey_def stringify_path_v10 code_units_def hash_default_fold
      toString36_wibyyo)

lemma findIndex_takeWhile:
  "findIndex P xs =
     (if \<exists>x \<in> set xs. P x then int (length (takeWhile (\<lambda>x. \<not> P x) xs)) else -1)"
  by (induction xs) (auto simp: Let_def)

lemma every_from_nth:
  "every_from f xs n = (\<forall>i < length xs. f (xs ! i) (n + i))"
proof (induction xs arbitrary: n)
  case Nil
  then show ?case by simp
next
  case (Cons x xs)
  have "(\<forall>i < length (x # xs). f ((x # xs) ! i) (n + i)) =
        (f x n \<and> (\<forall>i < length xs. f (xs ! i) (Suc n + i)))"
    by (auto simp: less_Suc_eq_0_disj)
  then show ?case
    using Cons.IH [of "Suc n"] by simp
qed

lemma length_takeWhile_le_index:
  assumes "j < length xs" and "\<not> P (xs ! j)"
  shows "length (takeWhile P xs) \<le> j"
proof (rule ccontr)
  assume "\<not> length (takeWhile P xs) \<le> j"
  then have lt: "j < length (takeWhile P xs)" by simp
  then have "takeWhile P xs ! j \<in> set (takeWhile P xs)"
    by (rule nth_mem)
  then have "P (takeWhile P xs ! j)"
    by (rule set_takeWhileD [THEN conjunct2])
  then show False
    using assms(2) takeWhile_nth [OF lt] by simp
qed

lemma first_occurrence_distinct:
  "(\<forall>i < length ks. i = length (takeWhile (\<lambda>c. c \<noteq> ks ! i) ks)) = distinct ks"
proof
  assume first: "\<forall>i < length ks. i = length (takeWhile (\<lambda>c. c \<noteq> ks ! i) ks)"
  show "distinct ks"
    unfolding distinct_conv_nth
  proof (intro allI impI)
    fix i j
    assume i: "i < length ks" and j: "j < length ks" and ne: "i \<noteq> j"
    show "ks ! i \<noteq> ks ! j"
    proof
      assume eq: "ks ! i = ks ! j"
      have "length (takeWhile (\<lambda>c. c \<noteq> ks ! j) ks) \<le> i"
        by (rule length_takeWhile_le_index [OF i]) (simp add: eq)
      moreover have "length (takeWhile (\<lambda>c. c \<noteq> ks ! i) ks) \<le> j"
        by (rule length_takeWhile_le_index [OF j]) (simp add: eq)
      ultimately show False
        using first i j ne by (metis le_antisym)
    qed
  qed
next
  assume d: "distinct ks"
  show "\<forall>i < length ks. i = length (takeWhile (\<lambda>c. c \<noteq> ks ! i) ks)"
  proof (intro allI impI)
    fix i
    assume i: "i < length ks"
    have "takeWhile (\<lambda>c. c \<noteq> ks ! i) ks = take i ks"
    proof (rule takeWhile_eq_take_P_nth)
      fix j
      assume "j < i" "j < length ks"
      then show "ks ! j \<noteq> ks ! i"
        using d i by (simp add: nth_eq_iff_index_eq)
    next
      show "\<not> ks ! i \<noteq> ks ! i" by simp
    qed
    then show "i = length (takeWhile (\<lambda>c. c \<noteq> ks ! i) ks)"
      using i by simp
  qed
qed

lemma every_findIndex_distinct:
  "every (\<lambda>key index. int index = findIndex (\<lambda>childKey. childKey = key) ks) ks = distinct ks"
proof -
  have "every (\<lambda>key index. int index = findIndex (\<lambda>childKey. childKey = key) ks) ks =
        (\<forall>i < length ks. int i = findIndex (\<lambda>childKey. childKey = ks ! i) ks)"
    by (simp add: every_def every_from_nth)
  also have "\<dots> = (\<forall>i < length ks. i = length (takeWhile (\<lambda>c. c \<noteq> ks ! i) ks))"
    by (auto simp: findIndex_takeWhile)
  also have "\<dots> = distinct ks"
    by (rule first_occurrence_distinct)
  finally show ?thesis .
qed

text \<open>
  C3. \<open>hasDuplicatedChildren\<close> is true exactly when some fingerprint occurs twice among
  the fingerprints of the children; in particular it is true whenever two children of the
  collection are identical (same name, same attributes in the same order). Children with
  different names or attributes may still share a fingerprint.
\<close>

theorem hasDuplicatedChildren_iff_repeated_key:
  "hasDuplicatedChildren children = (\<not> distinct (map generateHashedKey children)) \<and>
   (\<forall>i j. i < j \<and> j < length children \<and> children ! i = children ! j
      \<longrightarrow> hasDuplicatedChildren children)"
proof -
  have iff: "hasDuplicatedChildren children = (\<not> distinct (map generateHashedKey children))"
    by (simp add: hasDuplicatedChildren_def Let_def every_findIndex_distinct)
  have "hasDuplicatedChildren children"
    if "i < j" "j < length children" "children ! i = children ! j" for i j
  proof -
    have "map generateHashedKey children ! i = map generateHashedKey children ! j"
      using that by simp
    moreover have "i < length (map generateHashedKey children)"
      "j < length (map generateHashedKey children)" "i \<noteq> j"
      using that by simp_all
    ultimately have "\<not> distinct (map generateHashedKey children)"
      by (metis nth_eq_iff_index_eq)
    then show ?thesis
      using iff by simp
  qed
  with iff show ?thesis by blast
qed

theorem hasDuplicatedChildren_iff_repeated_key_witness:
  "(0::nat) < 1 \<and> 1 < length [\<lparr>name = ''path'', attributes = [(''d'', ''M3 15h19'')]\<rparr>,
                             \<lparr>name = ''path'', attributes = [(''d'', ''M3 15h19'')]\<rparr>] \<and>
   [\<lparr>name = ''path'', attributes = [(''d'', ''M3 15h19'')]\<rparr>,
    \<lparr>name = ''path'', attributes = [(''d'', ''M3 15h19'')]\<rparr>] ! 0 =
   [\<lparr>name = ''path'', attributes = [(''d'', ''M3 15h19'')]\<rparr>,
    \<lparr>name = ''path'', attributes = [(''d'', ''M3 15h19'')]\<rparr>] ! 1 \<and>
   hasDuplicatedChildren [\<lparr>name = ''path'', attributes = [(''d'', ''M3 15h19'')]\<rparr>,
                          \<lparr>name = ''path'', attributes = [(''d'', ''M3 15h19'')]\<rparr>]"
  using hasDuplicatedChildren_iff_repeated_key
    [of "[\<lparr>name = ''path'', attributes = [(''d'', ''M3 15h19'')]\<rparr>,
          \<lparr>name = ''path'', attributes = [(''d'', ''M3 15h19'')]\<rparr>]",
     THEN conjunct2, rule_format, of 0 1]
  by simp

text \<open>
  Two different children, the paths \<open>M3 15h19\<close> and \<open>M22 22v10\<close>, have the fingerprint
  \<open>wibyyo\<close>: the collection has pairwise distinct members and is reported as having
  duplicates.
\<close>

theorem distinct_children_reported_duplicated:
  "\<lparr>name = ''path'', attributes = [(''d'', ''M3 15h19'')]\<rparr> \<noteq>
   \<lparr>name = ''path'', attributes = [(''d'', ''M22 22v10'')]\<rparr> \<and>
   hasDuplicatedChildren [\<lparr>name = ''path'', attributes = [(''d'', ''M3 15h19'')]\<rparr>,
                          \<lparr>name = ''path'', attributes = [(''d'', ''M22 22v10'')]\<rparr>]"
  by (simp add: hasDuplicatedChildren_def every_def key_path_h19 key_path_v10)

section \<open>Properties of \<open>readFile\<close>\<close>

lemma dirname_not_in_module_scope: "map_of module_scope ''__dirname'' = None"
  by (simp add: module_scope_def)

lemma resolve_not_a_string_method: "''resolve'' \<notin> set String_prototype"
  by (simp add: String_prototype_def)

lemma ResolveBinding_fs: "ResolveBinding [(''path'', Str p)] globals ''fs'' = Inr (NodeModule ''fs'')"
  by (simp add: ResolveBinding_def module_scope_def)

lemma ResolveBinding_path: "ResolveBinding [(''path'', Str p)] globals ''path'' = Inr (Str p)"
  by (simp add: ResolveBinding_def)

lemma ResolveBinding_dirname:
  "ResolveBinding [(''path'', Str p)] globals ''__dirname'' =
     (case map_of globals ''__dirname'' of
        None \<Rightarrow> Inl (ReferenceError ''__dirname is not defined'')
      | Some v \<Rightarrow> Inr v)"
  by (simp add: ResolveBinding_def dirname_not_in_module_scope split: option.splits)

text \<open>
  C10. Every call of \<open>readFile\<close> throws, whatever the argument string, the working tree
  and the global object are: the identifier \<open>__dirname\<close> is not bound in the module, so
  evaluating the arguments throws a \<open>ReferenceError\<close> unless the global object defines it;
  and then the callee \<open>path.resolve\<close> is a property of the parameter, a string, which is
  not a function. No call returns the contents of a file.
\<close>

theorem readFile_always_throws:
  "readFile globals path_resolve w p =
     Some (Inl (case map_of globals ''__dirname'' of
                  None \<Rightarrow> ReferenceError ''__dirname is not defined''
                | Some v \<Rightarrow> TypeError ''callee is not a function''))"
  by (simp add: readFile_def ResolveBinding_fs ResolveBinding_path ResolveBinding_dirname
      resolve_not_a_string_method node_exports_def split: option.splits)

section \<open>Properties of the rename workflow\<close>

lemma svg_neq_json: "a @ ''.svg'' \<noteq> b @ ''.json''"
proof
  assume "a @ ''.svg'' = b @ ''.json''"
  then have "last (a @ ''.svg'') = last (b @ ''.json'')" by (rule arg_cong)
  then show False by simp
qed

lemma path_svg_neq_json: "d @ ''/'' @ a @ ''.svg'' \<noteq> d @ ''/'' @ b @ ''.json''"
  using svg_neq_json [of a b] by simp

lemma path_json_neq_svg: "d @ ''/'' @ a @ ''.json'' \<noteq> d @ ''/'' @ b @ ''.svg''"
  using svg_neq_json [of b a] by simp

lemma git_mv_Inr:
  "git_mv src dst w = Inr w1 \<Longrightarrow>
   \<exists>body staged. files w src = Some body \<and> git_index w src = Some staged \<and> files w dst = None \<and>
     w1 = w\<lparr>files := (files w)(src := None, dst \<mapsto> body),
            git_index := (git_index w)(src := None, dst \<mapsto> staged)\<rparr>"
  by (auto simp: git_mv_def split: option.splits if_splits)

lemma git_add_Inr:
  "git_add p w = Inr w1 \<Longrightarrow>
   \<exists>body. files w p = Some body \<and> w1 = w\<lparr>git_index := (git_index w)(p \<mapsto> body)\<rparr>"
  by (auto simp: git_add_def split: option.splits)

lemma files_console_log: "files (console_log l w) = files w"
  by (simp add: console_log_def)

lemma git_index_console_log: "git_index (console_log l w) = git_index w"
  by (simp add: console_log_def)

lemma renameIcon_returns:
  assumes "renameIcon P S d old new logInfo w = (Inr (), w')"
  shows "\<exists>svg body jsonData jsonData'.
           files w (d @ ''/'' @ old @ ''.svg'') = Some svg \<and>
           files w (d @ ''/'' @ old @ ''.json'') = Some body \<and>
           files w (d @ ''/'' @ new @ ''.svg'') = None \<and>
           files w (d @ ''/'' @ new @ ''.json'') = None \<and>
           P body = Some jsonData \<and>
           update_aliases jsonData old new = Inr jsonData' \<and>
           files w' = (files w)(d @ ''/'' @ old @ ''.svg'' := None, d @ ''/'' @ new @ ''.svg'' \<mapsto> svg,
                               d @ ''/'' @ old @ ''.json'' := None,
                               d @ ''/'' @ new @ ''.json'' \<mapsto> S jsonData') \<and>
           git_index w' (d @ ''/'' @ new @ ''.json'') = Some (S jsonData')"
proof -
  let ?osvg = "d @ ''/'' @ old @ ''.svg''" and ?nsvg = "d @ ''/'' @ new @ ''.svg''"
  let ?ojson = "d @ ''/'' @ old @ ''.json''" and ?njson = "d @ ''/'' @ new @ ''.json''"
  from assms obtain w1 where mv1: "git_mv ?osvg ?nsvg w = Inr w1"
    by (auto simp: renameIcon_def split: if_splits sum.splits)
  from assms mv1 obtain w2 where mv2: "git_mv ?ojson ?njson w1 = Inr w2"
    by (auto simp: renameIcon_def split: if_splits sum.splits)
  from assms mv1 mv2 obtain body where rd: "readFileSync ?njson w2 = Inr body"
    by (auto simp: renameIcon_def split: if_splits sum.splits)
  from assms mv1 mv2 rd obtain jsonData where ps: "P body = Some jsonData"
    by (auto simp: renameIcon_def split: if_splits sum.splits option.splits)
  from assms mv1 mv2 rd ps obtain jsonData' where up: "update_aliases jsonData old new = Inr jsonData'"
    by (auto simp: renameIcon_def split: if_splits sum.splits)
  from assms mv1 mv2 rd ps up obtain w4
    where ad: "git_add ?njson (writeFileSync ?njson (S jsonData') w2) = Inr w4"
    by (auto simp: renameIcon_def Let_def split: if_splits sum.splits)
  from assms mv1 mv2 rd ps up ad
  have fin: "files w' = files w4 \<and> git_index w' = git_index w4"
    by (auto simp: renameIcon_def Let_def files_console_log git_index_console_log
        split: if_splits sum.splits option.splits)
  from assms have pre: "files w ?nsvg = None \<and> files w ?njson = None"
    by (auto simp: renameIcon_def fileExists_def split: if_splits)
  from git_mv_Inr [OF mv1] obtain svg staged
    where s1: "files w ?osvg = Some svg"
      and w1: "w1 = w\<lparr>files := (files w)(?osvg := None, ?nsvg \<mapsto> svg),
                       git_index := (git_index w)(?osvg := None, ?nsvg \<mapsto> staged)\<rparr>"
    by blast
  from git_mv_Inr [OF mv2] obtain body' staged'
    where s2: "files w1 ?ojson = Some body'"
      and w2: "w2 = w1\<lparr>files := (files w1)(?ojson := None, ?njson \<mapsto> body'),
                        git_index := (git_index w1)(?ojson := None, ?njson \<mapsto> staged')\<rparr>"
    by blast
  from rd w2 have tt: "body = body'"
    by (simp add: readFileSync_def)
  from s2 w1 have s2': "files w ?ojson = Some body'"
    by (simp add: path_json_neq_svg split: if_splits)
  from git_add_Inr [OF ad]
  have w4: "w4 = (writeFileSync ?njson (S jsonData') w2)
                   \<lparr>git_index := (git_index (writeFileSync ?njson (S jsonData') w2))
                                    (?njson \<mapsto> S jsonData')\<rparr>"
    by (auto simp: writeFileSync_def)
  have "files w' = (files w)(?osvg := None, ?nsvg \<mapsto> svg, ?ojson := None, ?njson \<mapsto> S jsonData')"
    using fin w4 w2 w1 by (simp add: writeFileSync_def)
  moreover have "git_index w' ?njson = Some (S jsonData')"
    using fin w4 by simp
  ultimately show ?thesis
    using s1 s2' tt ps up pre by blast
qed

lemma update_aliases_array:
  "map_of props ''aliases'' = Some (JArray xs) \<Longrightarrow>
   update_aliases (JObject props) old new =
     Inr (JObject (AList.update ''aliases''
            (JNumber (real (length (filter (\<lambda>name. name \<noteq> JString new) xs @ [JString old]))))
            props))"
  by (simp add: update_aliases_def Array_push_def)

lemma update_aliases_no_array:
  "\<not> Array_isArray (map_of props ''aliases'') \<Longrightarrow>
   update_aliases (JObject props) old new =
     Inr (JObject (AList.update ''aliases'' (JArray [JString old]) props))"
  by (simp add: update_aliases_def)

lemma Array_isArray_cases:
  "Array_isArray v \<Longrightarrow> \<exists>xs. v = Some (JArray xs)"
  by (cases v rule: Array_isArray.cases) simp_all

lemma update_aliases_object:
  "\<exists>v. update_aliases (JObject props) old new = Inr (JObject (AList.update ''aliases'' v props)) \<and>
       v \<noteq> JArray []"
proof (cases "Array_isArray (map_of props ''aliases'')")
  case True
  then obtain xs where "map_of props ''aliases'' = Some (JArray xs)"
    using Array_isArray_cases by blast
  then show ?thesis
    using update_aliases_array by blast
next
  case False
  then show ?thesis
    using update_aliases_no_array by blast
qed

lemma filter_update_other:
  "filter (\<lambda>p. fst p \<noteq> k) (AList.update k v al) = filter (\<lambda>p. fst p \<noteq> k) al"
  by (induction al) auto

lemma old_neq_new:
  "files w (d @ ''/'' @ old @ ''.svg'') = Some svg \<Longrightarrow>
   files w (d @ ''/'' @ new @ ''.svg'') = None \<Longrightarrow> old \<noteq> new"
  by auto

lemma returns_pair: "fst r = Inr () \<Longrightarrow> r = (Inr (), snd r)"
  by (cases r) simp

lemma home_to_house_returns: "fst home_to_house = Inr ()"
  by (simp add: home_to_house_def renameIcon_def home_tree_def fileExists_def git_mv_def
      readFileSync_def JSON_parse_examples_def update_aliases_def writeFileSync_def git_add_def)

lemma house_to_home_returns: "fst house_to_home = Inr ()"
  by (simp add: house_to_home_def renameIcon_def house_tree_def fileExists_def git_mv_def
      readFileSync_def JSON_parse_examples_def update_aliases_def writeFileSync_def git_add_def
      Array_push_def)

lemma home_to_house_call:
  "renameIcon JSON_parse_examples JSON_stringify_examples ''icons'' ''home'' ''house''
     (Some False) home_tree = (Inr (), snd home_to_house)"
  unfolding home_to_house_def [symmetric] by (rule returns_pair [OF home_to_house_returns])

lemma house_to_home_call:
  "renameIcon JSON_parse_examples JSON_stringify_examples ''icons'' ''house'' ''home''
     (Some False) house_tree = (Inr (), snd house_to_home)"
  unfolding house_to_home_def [symmetric] by (rule returns_pair [OF house_to_home_returns])

lemma path_house_json: "''icons'' @ ''/'' @ ''house'' @ ''.json'' = ''icons/house.json''"
  by simp

lemma path_home_json: "''icons'' @ ''/'' @ ''home'' @ ''.json'' = ''icons/home.json''"
  by simp

lemma house_tree_metadata:
  \<open>files house_tree ''icons/house.json'' = Some ''{"tags":["building"],"aliases":["home"]}''\<close>
  by (simp add: house_tree_def)

lemma parse_house_metadata:
  \<open>JSON_parse_examples ''{"tags":["building"],"aliases":["home"]}'' =
     Some (JObject [(''tags'', JArray [JString ''building'']), (''aliases'', JArray [JString ''home''])])\<close>
  by (simp add: JSON_parse_examples_def)

text \<open>
  C1. The icon \<open>house\<close>, whose metadata has the aliases \<open>["home"]\<close>, is renamed to
  \<open>home\<close>. The call returns normally. The value assigned to \<open>jsonData.aliases\<close> is the
  value of the call of \<open>push\<close>, which is the new length of the filtered array and not the
  array: the metadata written to \<open>icons/home.json\<close> has \<open>"aliases": 1\<close>, where the
  old list without the new name and with the old name appended is \<open>["house"]\<close>.
\<close>

theorem house_to_home_persists_length:
  \<open>fst house_to_home = Inr () \<and>
   files house_tree ''icons/house.json'' = Some ''{"tags":["building"],"aliases":["home"]}'' \<and>
   JSON_parse_examples ''{"tags":["building"],"aliases":["home"]}'' =
     Some (JObject [(''tags'', JArray [JString ''building'']), (''aliases'', JArray [JString ''home''])]) \<and>
   update_aliases (JObject [(''tags'', JArray [JString ''building'']), (''aliases'', JArray [JString ''home''])]) ''house'' ''home'' =
     Inr (JObject [(''tags'', JArray [JString ''building'']), (''aliases'', JNumber 1)]) \<and>
   files (snd house_to_home) ''icons/home.json'' =
     Some (''{'' @ nl @ ''  "tags": ['' @ nl @ ''    "building"'' @ nl @ ''  ],'' @ nl @
           ''  "aliases": 1'' @ nl @ ''}'') \<and>
   filter (\<lambda>name. name \<noteq> JString ''home'') [JString ''home''] @ [JString ''house''] =
     [JString ''house''] \<and>
   JNumber 1 \<noteq> JArray [JString ''house'']\<close>
  by (simp add: house_to_home_def renameIcon_def house_tree_def fileExists_def git_mv_def
      readFileSync_def JSON_parse_examples_def JSON_stringify_examples_def update_aliases_def
      writeFileSync_def git_add_def Array_push_def)

text \<open>
  C2. When one of the four preconditions fails, \<open>renameIcon\<close> throws the error of the
  first check that fails, in the order new artwork exists, new metadata exists, old
  artwork missing, old metadata missing, with a message that names the file and the
  reason, and the state in which the call ends is the state in which it started: no file
  is moved or written, nothing is staged, nothing is logged. In particular, when the new
  artwork exists the error is the one of the artwork, whatever else holds.
\<close>

theorem renameIcon_precondition_errors:
  "(fileExists (d @ ''/'' @ new @ ''.svg'') w \<longrightarrow>
      renameIcon P S d old new logInfo w =
        (Inl (Error (''ERROR: Icon icons/'' @ new @ ''.svg already exists'')), w)) \<and>
   (\<not> fileExists (d @ ''/'' @ new @ ''.svg'') w \<and> fileExists (d @ ''/'' @ new @ ''.json'') w \<longrightarrow>
      renameIcon P S d old new logInfo w =
        (Inl (Error (''ERROR: Metadata file icons/'' @ new @ ''.json already exists'')), w)) \<and>
   (\<not> fileExists (d @ ''/'' @ new @ ''.svg'') w \<and> \<not> fileExists (d @ ''/'' @ new @ ''.json'') w \<and>
    \<not> fileExists (d @ ''/'' @ old @ ''.svg'') w \<longrightarrow>
      renameIcon P S d old new logInfo w =
        (Inl (Error (''ERROR: Icon icons/'' @ old @ ''.svg doesn'' @ [CHR 0x27] @ ''t exist'')), w)) \<and>
   (\<not> fileExists (d @ ''/'' @ new @ ''.svg'') w \<and> \<not> fileExists (d @ ''/'' @ new @ ''.json'') w \<and>
    fileExists (d @ ''/'' @ old @ ''.svg'') w \<and> \<not> fileExists (d @ ''/'' @ old @ ''.json'') w \<longrightarrow>
      renameIcon P S d old new logInfo w =
        (Inl (Error (''ERROR: Metadata file icons/'' @ old @ ''.json doesn'' @ [CHR 0x27] @ ''t exist'')), w))"
  by (simp add: renameIcon_def)


theorem renameIcon_precondition_errors_witness:
  \<open>fileExists ''icons/home.svg'' home_tree \<and>
   renameIcon JSON_parse_examples JSON_stringify_examples ''icons'' ''villa'' ''home'' None home_tree =
     (Inl (Error ''ERROR: Icon icons/home.svg already exists''), home_tree) \<and>
   \<not> fileExists ''icons/flat.svg'' \<lparr>files = [''icons/flat.json'' \<mapsto> ''{}''],
        git_index = Map.empty, console = []\<rparr> \<and>
   fileExists ''icons/flat.json'' \<lparr>files = [''icons/flat.json'' \<mapsto> ''{}''],
        git_index = Map.empty, console = []\<rparr> \<and>
   renameIcon JSON_parse_examples JSON_stringify_examples ''icons'' ''villa'' ''flat'' None
       \<lparr>files = [''icons/flat.json'' \<mapsto> ''{}''], git_index = Map.empty, console = []\<rparr> =
     (Inl (Error ''ERROR: Metadata file icons/flat.json already exists''),
      \<lparr>files = [''icons/flat.json'' \<mapsto> ''{}''], git_index = Map.empty, console = []\<rparr>) \<and>
   \<not> fileExists ''icons/villa.svg'' home_tree \<and>
   renameIcon JSON_parse_examples JSON_stringify_examples ''icons'' ''villa'' ''house'' None home_tree =
     (Inl (Error (''ERROR: Icon icons/villa.svg doesn'' @ [CHR 0x27] @ ''t exist'')), home_tree) \<and>
   fileExists ''icons/villa.svg'' \<lparr>files = [''icons/villa.svg'' \<mapsto> ''<svg></svg>''],
        git_index = Map.empty, console = []\<rparr> \<and>
   \<not> fileExists ''icons/villa.json'' \<lparr>files = [''icons/villa.svg'' \<mapsto> ''<svg></svg>''],
        git_index = Map.empty, console = []\<rparr> \<and>
   renameIcon JSON_parse_examples JSON_stringify_examples ''icons'' ''villa'' ''house'' None
       \<lparr>files = [''icons/villa.svg'' \<mapsto> ''<svg></svg>''], git_index = Map.empty,
        console = []\<rparr> =
     (Inl (Error (''ERROR: Metadata file icons/villa.json doesn'' @ [CHR 0x27] @ ''t exist'')),
      \<lparr>files = [''icons/villa.svg'' \<mapsto> ''<svg></svg>''], git_index = Map.empty,
       console = []\<rparr>)\<close>
  using
    renameIcon_precondition_errors [where d = "''icons''" and old = "''villa''" and new = "''home''"
      and w = home_tree and P = JSON_parse_examples and S = JSON_stringify_examples and logInfo = None]
    renameIcon_precondition_errors [where d = "''icons''" and old = "''villa''" and new = "''flat''"
      and w = "\<lparr>files = [''icons/flat.json'' \<mapsto> ''{}''], git_index = Map.empty, console = []\<rparr>"
      and P = JSON_parse_examples and S = JSON_stringify_examples and logInfo = None]
    renameIcon_precondition_errors [where d = "''icons''" and old = "''villa''" and new = "''house''"
      and w = home_tree and P = JSON_parse_examples and S = JSON_stringify_examples and logInfo = None]
    renameIcon_precondition_errors [where d = "''icons''" and old = "''villa''" and new = "''house''"
      and w = "\<lparr>files = [''icons/villa.svg'' \<mapsto> ''<svg></svg>''], git_index = Map.empty,
                console = []\<rparr>"
      and P = JSON_parse_examples and S = JSON_stringify_examples and logInfo = None]
  by (simp add: fileExists_def home_tree_def)

text \<open>
  C7. After a successful rename of an icon whose metadata object has no \<open>aliases\<close> array,
  the metadata written under the new name is the old object with \<open>aliases\<close> set to the
  list that holds exactly the old name; the artwork is under the new name with its old
  content, and neither the artwork nor the metadata is left under the old name.
\<close>

theorem renameIcon_creates_aliases:
  assumes "renameIcon P S d old new logInfo w = (Inr (), w')"
    and "files w (d @ ''/'' @ old @ ''.json'') = Some body"
    and "P body = Some (JObject props)"
    and "\<not> Array_isArray (map_of props ''aliases'')"
  shows "files w' (d @ ''/'' @ new @ ''.json'') =
           Some (S (JObject (AList.update ''aliases'' (JArray [JString old]) props))) \<and>
         map_of (AList.update ''aliases'' (JArray [JString old]) props) ''aliases'' =
           Some (JArray [JString old]) \<and>
         files w (d @ ''/'' @ old @ ''.svg'') \<noteq> None \<and>
         files w' (d @ ''/'' @ new @ ''.svg'') = files w (d @ ''/'' @ old @ ''.svg'') \<and>
         files w' (d @ ''/'' @ old @ ''.svg'') = None \<and>
         files w' (d @ ''/'' @ old @ ''.json'') = None"
proof -
  from renameIcon_returns [OF assms(1)] obtain svg body' jsonData jsonData'
    where osvg: "files w (d @ ''/'' @ old @ ''.svg'') = Some svg"
      and ojson: "files w (d @ ''/'' @ old @ ''.json'') = Some body'"
      and nsvg: "files w (d @ ''/'' @ new @ ''.svg'') = None"
      and ps: "P body' = Some jsonData"
      and up: "update_aliases jsonData old new = Inr jsonData'"
      and fs: "files w' = (files w)(d @ ''/'' @ old @ ''.svg'' := None,
                 d @ ''/'' @ new @ ''.svg'' \<mapsto> svg, d @ ''/'' @ old @ ''.json'' := None,
                 d @ ''/'' @ new @ ''.json'' \<mapsto> S jsonData')"
    by blast
  from ojson ps assms(2,3) have "jsonData = JObject props" by simp
  with up assms(4)
  have j': "jsonData' = JObject (AList.update ''aliases'' (JArray [JString old]) props)"
    by (simp add: update_aliases_no_array)
  have ne: "old \<noteq> new"
    using osvg nsvg by (rule old_neq_new)
  have "files w' (d @ ''/'' @ new @ ''.json'') =
          Some (S (JObject (AList.update ''aliases'' (JArray [JString old]) props)))"
    unfolding fs j' by simp
  moreover have "map_of (AList.update ''aliases'' (JArray [JString old]) props) ''aliases'' =
          Some (JArray [JString old])"
    by (simp add: update_conv')
  moreover have "files w' (d @ ''/'' @ new @ ''.svg'') = files w (d @ ''/'' @ old @ ''.svg'')"
    unfolding fs using osvg by (simp add: path_svg_neq_json path_json_neq_svg)
  moreover have "files w' (d @ ''/'' @ old @ ''.svg'') = None"
    unfolding fs using ne by (simp add: path_svg_neq_json path_json_neq_svg)
  moreover have "files w' (d @ ''/'' @ old @ ''.json'') = None"
    unfolding fs using ne by (simp add: path_svg_neq_json path_json_neq_svg)
  ultimately show ?thesis
    using osvg by simp
qed


theorem renameIcon_creates_aliases_witness:
  \<open>renameIcon JSON_parse_examples JSON_stringify_examples ''icons'' ''home'' ''house''
     (Some False) home_tree = (Inr (), snd home_to_house) \<and>
   files home_tree ''icons/home.json'' = Some ''{"tags":["building"]}'' \<and>
   JSON_parse_examples ''{"tags":["building"]}'' = Some (JObject [(''tags'', JArray [JString ''building''])]) \<and>
   \<not> Array_isArray (map_of [(''tags'', JArray [JString ''building''])] ''aliases'') \<and>
   files (snd home_to_house) ''icons/house.json'' =
     Some (JSON_stringify_examples
             (JObject [(''tags'', JArray [JString ''building'']), (''aliases'', JArray [JString ''home''])])) \<and>
   files (snd home_to_house) ''icons/house.svg'' = Some ''<svg></svg>'' \<and>
   files (snd home_to_house) ''icons/home.svg'' = None \<and>
   files (snd home_to_house) ''icons/home.json'' = None\<close>
proof -
  note r = home_to_house_call
  have b: \<open>files home_tree ''icons/home.json'' = Some ''{"tags":["building"]}''\<close>
    by (simp add: home_tree_def)
  have p: \<open>JSON_parse_examples ''{"tags":["building"]}'' = Some (JObject [(''tags'', JArray [JString ''building''])])\<close>
    by (simp add: JSON_parse_examples_def)
  have a: \<open>\<not> Array_isArray (map_of [(''tags'', JArray [JString ''building''])] ''aliases'')\<close>
    by simp
  have s: \<open>files home_tree ''icons/home.svg'' = Some ''<svg></svg>''\<close>
    by (simp add: home_tree_def)
  from renameIcon_creates_aliases [OF r b [folded path_home_json] p a] s
  have c: \<open>files (snd home_to_house) ''icons/house.json'' =
     Some (JSON_stringify_examples
             (JObject [(''tags'', JArray [JString ''building'']), (''aliases'', JArray [JString ''home''])])) \<and>
   files (snd home_to_house) ''icons/house.svg'' = Some ''<svg></svg>'' \<and>
   files (snd home_to_house) ''icons/home.svg'' = None \<and>
   files (snd home_to_house) ''icons/home.json'' = None\<close>
    by simp
  show ?thesis
    by (intro conjI r b p a c [THEN conjunct1] c [THEN conjunct2, THEN conjunct1]
        c [THEN conjunct2, THEN conjunct2, THEN conjunct1]
        c [THEN conjunct2, THEN conjunct2, THEN conjunct2])
qed

lemma update_aliases_keeps_field:
  "update_aliases (JObject props) old new = Inr (JObject props') \<Longrightarrow>
   map_of props' ''aliases'' \<noteq> None"
proof -
  assume a: "update_aliases (JObject props) old new = Inr (JObject props')"
  obtain v where "update_aliases (JObject props) old new =
      Inr (JObject (AList.update ''aliases'' v props))"
    using update_aliases_object by blast
  with a have "props' = AList.update ''aliases'' v props" by simp
  then show ?thesis by (simp add: update_conv')
qed


text \<open>
  C8. After a successful rename of an icon whose metadata is a JSON object, the object
  written under the new name has every property other than \<open>aliases\<close> with its old value,
  and these properties are in their old order.
\<close>

theorem renameIcon_preserves_other_fields:
  assumes "renameIcon P S d old new logInfo w = (Inr (), w')"
    and "files w (d @ ''/'' @ old @ ''.json'') = Some body"
    and "P body = Some (JObject props)"
  shows "\<exists>props'. update_aliases (JObject props) old new = Inr (JObject props') \<and>
           files w' (d @ ''/'' @ new @ ''.json'') = Some (S (JObject props')) \<and>
           filter (\<lambda>p. fst p \<noteq> ''aliases'') props' = filter (\<lambda>p. fst p \<noteq> ''aliases'') props \<and>
           (\<forall>k. k \<noteq> ''aliases'' \<longrightarrow> map_of props' k = map_of props k)"
proof -
  from renameIcon_returns [OF assms(1)] obtain body' jsonData jsonData'
    where ojson: "files w (d @ ''/'' @ old @ ''.json'') = Some body'"
      and ps: "P body' = Some jsonData"
      and up: "update_aliases jsonData old new = Inr jsonData'"
      and fs: "files w' (d @ ''/'' @ new @ ''.json'') = Some (S jsonData')"
    by fastforce
  from ojson ps assms(2,3) have jd: "jsonData = JObject props" by simp
  obtain v where v: "update_aliases (JObject props) old new =
      Inr (JObject (AList.update ''aliases'' v props))"
    using update_aliases_object by blast
  have "filter (\<lambda>p. fst p \<noteq> ''aliases'') (AList.update ''aliases'' v props) =
        filter (\<lambda>p. fst p \<noteq> ''aliases'') props"
    by (rule filter_update_other)
  moreover have "\<forall>k. k \<noteq> ''aliases'' \<longrightarrow>
        map_of (AList.update ''aliases'' v props) k = map_of props k"
    by (simp add: update_conv')
  ultimately show ?thesis
    using v up fs jd by auto
qed


theorem renameIcon_preserves_other_fields_witness:
  \<open>renameIcon JSON_parse_examples JSON_stringify_examples ''icons'' ''house'' ''home''
     (Some False) house_tree = (Inr (), snd house_to_home) \<and>
   files house_tree ''icons/house.json'' = Some ''{"tags":["building"],"aliases":["home"]}'' \<and>
   JSON_parse_examples ''{"tags":["building"],"aliases":["home"]}'' =
     Some (JObject [(''tags'', JArray [JString ''building'']), (''aliases'', JArray [JString ''home''])]) \<and>
   (\<exists>props'.
      update_aliases (JObject [(''tags'', JArray [JString ''building'']), (''aliases'', JArray [JString ''home''])])
        ''house'' ''home'' = Inr (JObject props') \<and>
      files (snd house_to_home) ''icons/home.json'' =
        Some (JSON_stringify_examples (JObject props')) \<and>
      filter (\<lambda>p. fst p \<noteq> ''aliases'') props' = [(''tags'', JArray [JString ''building''])] \<and>
      map_of props' ''tags'' = Some (JArray [JString ''building'']))\<close>
proof -
  note r = house_to_home_call and b = house_tree_metadata and p = parse_house_metadata
  from renameIcon_preserves_other_fields [OF r b [folded path_house_json] p] obtain props'
    where u: \<open>update_aliases (JObject [(''tags'', JArray [JString ''building'']), (''aliases'', JArray [JString ''home''])])
                ''house'' ''home'' = Inr (JObject props')\<close>
      and f: \<open>files (snd house_to_home) (''icons'' @ ''/'' @ ''home'' @ ''.json'') =
                Some (JSON_stringify_examples (JObject props'))\<close>
      and flt: \<open>filter (\<lambda>p. fst p \<noteq> ''aliases'') props' =
                filter (\<lambda>p. fst p \<noteq> ''aliases'')
                  [(''tags'', JArray [JString ''building'']), (''aliases'', JArray [JString ''home''])]\<close>
      and mp: \<open>\<forall>k. k \<noteq> ''aliases'' \<longrightarrow>
                map_of props' k = map_of [(''tags'', JArray [JString ''building'']), (''aliases'', JArray [JString ''home''])] k\<close>
    by blast
  from f have f': \<open>files (snd house_to_home) ''icons/home.json'' =
                     Some (JSON_stringify_examples (JObject props'))\<close>
    unfolding path_home_json .
  from flt have flt': \<open>filter (\<lambda>p. fst p \<noteq> ''aliases'') props' = [(''tags'', JArray [JString ''building''])]\<close>
    by simp
  from mp [rule_format, of \<open>''tags''\<close>]
  have mp': \<open>map_of props' ''tags'' = Some (JArray [JString ''building''])\<close>
    by simp
  have e: \<open>\<exists>props'.
      update_aliases (JObject [(''tags'', JArray [JString ''building'']), (''aliases'', JArray [JString ''home''])])
        ''house'' ''home'' = Inr (JObject props') \<and>
      files (snd house_to_home) ''icons/home.json'' =
        Some (JSON_stringify_examples (JObject props')) \<and>
      filter (\<lambda>p. fst p \<noteq> ''aliases'') props' = [(''tags'', JArray [JString ''building''])] \<and>
      map_of props' ''tags'' = Some (JArray [JString ''building''])\<close>
    by (intro exI [of _ props'] conjI u f' flt' mp')
  show ?thesis
    by (intro conjI r b p e)
qed

end
